theory Spec2Isabelle
  imports Complex_Main
begin

section \<open>Python strings as sequences of code points\<close>

text \<open>
  A Python \<open>str\<close> is a sequence of Unicode code points, and the order parser works on
  Devanagari as well as on Latin text, so a string is a list of code points here.
  ASCII literals are written through \<open>of_ascii\<close>.
\<close>

type_synonym ustr = "nat list"

definition cp :: "char \<Rightarrow> nat" where
  "cp c = of_char c"

definition of_ascii :: "string \<Rightarrow> ustr" where
  "of_ascii s = map cp s"

text \<open>
  \<open>str.isspace\<close> of one code point: the set that \<open>str.strip()\<close> removes and that
  the whitespace class of a \<open>str\<close> pattern matches.
\<close>

definition is_space :: "nat \<Rightarrow> bool" where
  "is_space c \<longleftrightarrow>
     (0x9 \<le> c \<and> c \<le> 0xD) \<or> (0x1C \<le> c \<and> c \<le> 0x20) \<or> c = 0x85 \<or> c = 0xA0 \<or>
     c = 0x1680 \<or> (0x2000 \<le> c \<and> c \<le> 0x200A) \<or> c = 0x2028 \<or> c = 0x2029 \<or>
     c = 0x202F \<or> c = 0x205F \<or> c = 0x3000"

text \<open>
  The decimal digits of Unicode (category Nd) come in blocks of ten consecutive code
  points, in the order 0 to 9; \<open>decimal_starts\<close> lists the first code point of each
  block (Unicode 14, the table of CPython 3.11).
\<close>

definition decimal_starts :: "nat list" where
  "decimal_starts =
     [48, 1632, 1776, 1984, 2406, 2534, 2662, 2790, 2918, 3046, 3174, 3302, 3430, 3558,
      3664, 3792, 3872, 4160, 4240, 6112, 6160, 6470, 6608, 6784, 6800, 6992, 7088, 7232,
      7248, 42528, 43216, 43264, 43472, 43504, 43600, 44016, 65296, 66720, 68912, 69734,
      69872, 69942, 70096, 70384, 70736, 70864, 71248, 71360, 71472, 71904, 72016, 72784,
      73040, 73120, 92768, 92864, 93008, 120782, 120792, 120802, 120812, 120822, 123200,
      123632, 125264, 130032]"

text \<open>\<open>unicodedata.decimal\<close>: the value of a decimal digit, \<open>None\<close> for any other code point.\<close>

definition decimal_value :: "nat \<Rightarrow> nat option" where
  "decimal_value c =
     (case find (\<lambda>s. s \<le> c \<and> c < s + 10) decimal_starts of
        Some s \<Rightarrow> Some (c - s)
      | None \<Rightarrow> None)"

text \<open>What the digit class of a \<open>str\<close> pattern matches.\<close>

definition is_digit :: "nat \<Rightarrow> bool" where
  "is_digit c \<longleftrightarrow> decimal_value c \<noteq> None"

text \<open>
  The letter class of the pattern (a-z, A-Z and U+0900 to U+097F) under
  \<open>re.IGNORECASE\<close>: besides the 52 ASCII letters and the Devanagari block it admits the
  four code points whose case folding lands in \<open>a-z\<close>: U+0130, U+0131, U+017F and U+212A.
\<close>

definition is_letter :: "nat \<Rightarrow> bool" where
  "is_letter c \<longleftrightarrow>
     (0x41 \<le> c \<and> c \<le> 0x5A) \<or> (0x61 \<le> c \<and> c \<le> 0x7A) \<or> (0x900 \<le> c \<and> c \<le> 0x97F) \<or>
     c = 0x130 \<or> c = 0x131 \<or> c = 0x17F \<or> c = 0x212A"

text \<open>
  \<open>str.lower()\<close>, given for the cased code points that \<open>is_letter\<close> admits (A to Z,
  U+0130 which lowers to two code points, and the Kelvin sign U+212A); every other code
  point is left as it is. Python also maps the cased letters of the other scripts.
\<close>

definition lower_cp :: "nat \<Rightarrow> ustr" where
  "lower_cp c =
     (if 0x41 \<le> c \<and> c \<le> 0x5A then [c + 32]
      else if c = 0x130 then [0x69, 0x307]
      else if c = 0x212A then [0x6B]
      else [c])"

definition py_lower :: "ustr \<Rightarrow> ustr" where
  "py_lower s = concat (map lower_cp s)"

text \<open>\<open>str.strip()\<close> without arguments.\<close>

definition py_strip :: "ustr \<Rightarrow> ustr" where
  "py_strip s = rev (dropWhile is_space (rev (dropWhile is_space s)))"

section \<open>The static tables of \<open>OrderParser\<close>\<close>

text \<open>
  Both tables are dict literals; a dict iterates in insertion order, which the alias
  search depends on, so they are association lists in the order of the source.
\<close>

definition UNIT_MAPPINGS :: "(ustr \<times> ustr) list" where
  "UNIT_MAPPINGS =
    [(of_ascii ''kg'', of_ascii ''kg''),
     (of_ascii ''kilo'', of_ascii ''kg''),
     ([0x915, 0x93F, 0x932, 0x94B], of_ascii ''kg''),
     (of_ascii ''keelo'', of_ascii ''kg''),
     (of_ascii ''gm'', of_ascii ''gm''),
     (of_ascii ''gram'', of_ascii ''gm''),
     ([0x917, 0x94D, 0x930, 0x93E, 0x92E], of_ascii ''gm''),
     (of_ascii ''litre'', of_ascii ''litre''),
     (of_ascii ''liter'', of_ascii ''litre''),
     ([0x932, 0x940, 0x91F, 0x930], of_ascii ''litre''),
     (of_ascii ''l'', of_ascii ''litre''),
     (of_ascii ''ml'', of_ascii ''ml''),
     (of_ascii ''millilitre'', of_ascii ''ml''),
     (of_ascii ''piece'', of_ascii ''piece''),
     (of_ascii ''pcs'', of_ascii ''piece''),
     (of_ascii ''pc'', of_ascii ''piece''),
     ([0x92A, 0x940, 0x938], of_ascii ''piece''),
     (of_ascii ''packet'', of_ascii ''packet''),
     (of_ascii ''pkt'', of_ascii ''packet''),
     ([0x92A, 0x948, 0x915, 0x947, 0x91F], of_ascii ''packet''),
     (of_ascii ''bottle'', of_ascii ''bottle''),
     ([0x92C, 0x94B, 0x924, 0x932], of_ascii ''bottle''),
     (of_ascii ''box'', of_ascii ''box''),
     ([0x92C, 0x949, 0x915, 0x94D, 0x938], of_ascii ''box''),
     (of_ascii ''dozen'', of_ascii ''dozen''),
     ([0x926, 0x930, 0x94D, 0x91C, 0x928], of_ascii ''dozen'')]"

definition PRODUCT_ALIASES :: "(ustr \<times> ustr list) list" where
  "PRODUCT_ALIASES =
    [(of_ascii ''atta'', [of_ascii ''aata'', [0x906, 0x91F, 0x93E], of_ascii ''flour'']),
     (of_ascii ''milk'', [of_ascii ''doodh'', [0x926, 0x942, 0x927]]),
     (of_ascii ''rice'', [of_ascii ''chawal'', [0x91A, 0x93E, 0x935, 0x932]]),
     (of_ascii ''sugar'', [of_ascii ''cheeni'', [0x91A, 0x940, 0x928, 0x940]]),
     (of_ascii ''oil'', [of_ascii ''tel'', [0x924, 0x947, 0x932]]),
     (of_ascii ''dal'', [of_ascii ''daal'', [0x926, 0x93E, 0x932], of_ascii ''lentils'']),
     (of_ascii ''salt'', [of_ascii ''namak'', [0x928, 0x92E, 0x915]]),
     (of_ascii ''tea'', [of_ascii ''chai'', [0x91A, 0x93E, 0x92F]]),
     (of_ascii ''biscuit'',
        [of_ascii ''biskut'', [0x92C, 0x93F, 0x938, 0x94D, 0x915, 0x941, 0x91F]])]"

text \<open>\<open>self.known_products = list(self.PRODUCT_ALIASES.keys())\<close>\<close>

definition known_products :: "ustr list" where
  "known_products = map fst PRODUCT_ALIASES"

section \<open>\<open>normalize_unit\<close>\<close>

definition normalize_unit :: "ustr \<Rightarrow> ustr" where
  "normalize_unit unit_text =
     (let unit_lower = py_strip (py_lower unit_text)
      in case map_of UNIT_MAPPINGS unit_lower of
           Some u \<Rightarrow> u
         | None \<Rightarrow> unit_lower)"

section \<open>Similarity scoring\<close>

text \<open>
  \<open>fuzz.ratio\<close> and \<open>process.extractOne\<close> belong to the rapidfuzz library. The ratio is
  twice the number of matching characters in an optimal alignment (the length of a longest
  common subsequence), divided by the sum of both lengths, times 100; two empty strings
  score 100. The score is kept as an exact rational where the library rounds to a double.

  \<open>lcs_row x ys prev diag left\<close> computes one row of the dynamic-programming table:
  \<open>prev\<close> is the row above, \<open>diag\<close> and \<open>left\<close> the entries above-left and left.
\<close>

fun lcs_row :: "nat \<Rightarrow> ustr \<Rightarrow> nat list \<Rightarrow> nat \<Rightarrow> nat \<Rightarrow> nat list" where
  "lcs_row x (y # ys) (p # ps) diag left =
     (if x = y then Suc diag # lcs_row x ys ps p (Suc diag)
      else max p left # lcs_row x ys ps p (max p left))"
| "lcs_row x ys ps diag left = []"

definition lcs :: "ustr \<Rightarrow> ustr \<Rightarrow> nat" where
  "lcs xs ys =
     last (0 # foldl (\<lambda>row x. lcs_row x ys row 0 0) (replicate (length ys) 0) xs)"

definition ratio :: "ustr \<Rightarrow> ustr \<Rightarrow> rat" where
  "ratio s1 s2 =
     (if length s1 + length s2 = 0 then 100
      else of_nat (200 * lcs s1 s2) / of_nat (length s1 + length s2))"

text \<open>
  \<open>process.extractOne(query, choices, scorer=fuzz.ratio, score_cutoff=c)\<close>: the loop
  over the choices keeps the best result so far and raises the cutoff to its score, so a
  later choice replaces it only with a strictly higher score; a scorer called with a
  cutoff returns 0 below it; a perfect score stops the loop.
\<close>

fun extract_loop :: "ustr \<Rightarrow> rat \<Rightarrow> (ustr \<times> rat) option \<Rightarrow> ustr list \<Rightarrow> (ustr \<times> rat) option"
  where
  "extract_loop query cutoff result [] = result"
| "extract_loop query cutoff result (choice # choices) =
     (let score = (if ratio query choice \<ge> cutoff then ratio query choice else 0);
          better = (score \<ge> cutoff \<and> (case result of None \<Rightarrow> True | Some (_, s) \<Rightarrow> score > s));
          cutoff' = (if better then score else cutoff);
          result' = (if better then Some (choice, score) else result)
      in if score = 100 then result' else extract_loop query cutoff' result' choices)"

definition extractOne :: "ustr \<Rightarrow> ustr list \<Rightarrow> rat \<Rightarrow> (ustr \<times> rat) option" where
  "extractOne query choices score_cutoff = extract_loop query score_cutoff None choices"

section \<open>\<open>fuzzy_match_product\<close>\<close>

text \<open>
  The two nested loops over \<open>PRODUCT_ALIASES.items()\<close> return the standard name at the
  first alias whose ratio reaches the threshold.
\<close>

fun alias_scan :: "ustr \<Rightarrow> int \<Rightarrow> (ustr \<times> ustr list) list \<Rightarrow> ustr option" where
  "alias_scan product_lower threshold [] = None"
| "alias_scan product_lower threshold ((standard_name, aliases) # rest) =
     (if list_ex (\<lambda>alias. ratio product_lower alias \<ge> of_int threshold) aliases
      then Some standard_name
      else alias_scan product_lower threshold rest)"

definition fuzzy_match_product :: "ustr \<Rightarrow> int \<Rightarrow> ustr" where
  "fuzzy_match_product product_text threshold =
     (let product_lower = py_strip (py_lower product_text)
      in case alias_scan product_lower threshold PRODUCT_ALIASES of
           Some standard_name \<Rightarrow> standard_name
         | None \<Rightarrow>
             (case extractOne product_lower known_products (of_int threshold) of
                Some match \<Rightarrow> fst match
              | None \<Rightarrow> py_lower product_text))"

section \<open>\<open>float\<close> of a string\<close>

text \<open>
  The built-in \<open>float(str)\<close>, which raises \<open>ValueError\<close> on a malformed string; the
  error is the value \<open>None\<close>. The value is kept as the exact decimal, where Python
  rounds it to the nearest double.
\<close>

datatype pyfloat = Finite rat | Infinite bool | NotANumber

definition ascii_space :: "nat \<Rightarrow> bool" where
  "ascii_space c \<longleftrightarrow> (9 \<le> c \<and> c \<le> 13) \<or> c = 32"

definition ascii_digit :: "nat \<Rightarrow> bool" where
  "ascii_digit c \<longleftrightarrow> 48 \<le> c \<and> c \<le> 57"

text \<open>
  Before parsing, every non-ASCII whitespace becomes a blank, every non-ASCII decimal
  digit its ASCII digit, and any other non-ASCII code point a question mark.
\<close>

definition to_ascii :: "nat \<Rightarrow> nat" where
  "to_ascii c =
     (if c < 128 then c
      else if is_space c then 32
      else case decimal_value c of Some d \<Rightarrow> 48 + d | None \<Rightarrow> 63)"

definition strip_ascii :: "ustr \<Rightarrow> ustr" where
  "strip_ascii s = rev (dropWhile ascii_space (rev (dropWhile ascii_space s)))"

text \<open>An underscore is allowed only between two digits; \<open>prev\<close> is the code point before.\<close>

fun underscores_ok :: "nat \<Rightarrow> ustr \<Rightarrow> bool" where
  "underscores_ok prev [] = (prev \<noteq> 95)"
| "underscores_ok prev (c # cs) =
     ((if c = 95 then ascii_digit prev else (prev = 95 \<longrightarrow> ascii_digit c)) \<and>
      underscores_ok c cs)"

definition digits_value :: "ustr \<Rightarrow> nat" where
  "digits_value ds = foldl (\<lambda>a c. 10 * a + (c - 48)) 0 ds"

text \<open>
  An unsigned decimal: digits, an optional point with digits (at least one digit on one
  side of the point), an optional exponent; nothing may follow.
\<close>

definition parse_decimal :: "ustr \<Rightarrow> rat option" where
  "parse_decimal s =
     (let ip = takeWhile ascii_digit s;
          r1 = dropWhile ascii_digit s;
          pt = (r1 \<noteq> [] \<and> hd r1 = 46);
          fp = (if pt then takeWhile ascii_digit (tl r1) else []);
          r2 = (if pt then dropWhile ascii_digit (tl r1) else r1);
          m = of_nat (digits_value (ip @ fp)) / 10 ^ length fp
      in if ip = [] \<and> fp = [] then None
         else if r2 = [] then Some m
         else if hd r2 = 101 \<or> hd r2 = 69 then
           (let t = tl r2;
                eneg = (t \<noteq> [] \<and> hd t = 45);
                ds = (if t \<noteq> [] \<and> (hd t = 45 \<or> hd t = 43) then tl t else t)
            in if ds \<noteq> [] \<and> list_all ascii_digit ds
               then Some (if eneg then m / 10 ^ digits_value ds else m * 10 ^ digits_value ds)
               else None)
         else None)"

definition py_float :: "ustr \<Rightarrow> pyfloat option" where
  "py_float s =
     (let t = strip_ascii (map to_ascii s)
      in if 95 \<in> set t \<and> \<not> underscores_ok 0 t then None
         else
           (let u = filter (\<lambda>c. c \<noteq> 95) t;
                neg = (u \<noteq> [] \<and> hd u = 45);
                body = (if u \<noteq> [] \<and> (hd u = 45 \<or> hd u = 43) then tl u else u)
            in if py_lower body = of_ascii ''inf'' \<or> py_lower body = of_ascii ''infinity''
               then Some (Infinite neg)
               else if py_lower body = of_ascii ''nan'' then Some NotANumber
               else map_option (\<lambda>m. Finite (if neg then - m else m)) (parse_decimal body)))"

section \<open>The extraction pattern\<close>

text \<open>
  The pattern of \<open>parse_hinglish_order\<close> is, with D a decimal digit, S a whitespace and
  L a letter of \<open>is_letter\<close>:
  group 1 = D+ optionally followed by a point and D+; then S*; then the optional
  group 2 = L+; then S+; then group 3 = L+ followed by any number of (S+ L+).
  Python matches by backtracking: every repetition is greedy, it first takes the longest
  run and gives back one code point at a time when the rest of the pattern fails. The
  alternatives of a repetition are therefore listed longest first, and the match is the
  first alternative for which the rest of the pattern succeeds.

  \<open>greedy P s\<close> lists the ways a starred class can match at the start of \<open>s\<close>, as pairs
  (matched, rest); \<open>greedy1\<close> is the same for a class repeated at least once.
\<close>

fun greedy :: "(nat \<Rightarrow> bool) \<Rightarrow> ustr \<Rightarrow> (ustr \<times> ustr) list" where
  "greedy P [] = [([], [])]"
| "greedy P (c # cs) =
     (if P c then map (\<lambda>(m, r). (c # m, r)) (greedy P cs) @ [([], c # cs)]
      else [([], c # cs)])"

definition greedy1 :: "(nat \<Rightarrow> bool) \<Rightarrow> ustr \<Rightarrow> (ustr \<times> ustr) list" where
  "greedy1 P s = filter (\<lambda>(m, r). m \<noteq> []) (greedy P s)"

fun first_some :: "('a \<Rightarrow> 'b option) \<Rightarrow> 'a list \<Rightarrow> 'b option" where
  "first_some f [] = None"
| "first_some f (x # xs) = (case f x of Some y \<Rightarrow> Some y | None \<Rightarrow> first_some f xs)"

lemma dropWhile_shorter:
  "takeWhile P s \<noteq> [] \<Longrightarrow> length (dropWhile Q (dropWhile P s)) < length s"
proof -
  assume ne: "takeWhile P s \<noteq> []"
  have "length (dropWhile P s) < length s"
    using ne by (cases s) (auto simp: le_imp_less_Suc length_dropWhile_le split: if_splits)
  moreover have "length (dropWhile Q (dropWhile P s)) \<le> length (dropWhile P s)"
    by (rule length_dropWhile_le)
  ultimately show ?thesis by simp
qed

text \<open>
  The tail of group 3, any number of (S+ L+). Nothing follows group 3 in the pattern, so
  its first alternative is final: each round takes the whole run of whitespace and the
  whole run of letters after it, and the repetition stops at the first round that fails
  (after fewer whitespaces the next code point is a whitespace, not a letter).
\<close>

function more_words :: "ustr \<Rightarrow> ustr \<times> ustr" where
  "more_words s =
     (if takeWhile is_space s = [] \<or> takeWhile is_letter (dropWhile is_space s) = []
      then ([], s)
      else (case more_words (dropWhile is_letter (dropWhile is_space s)) of
              (m, r) \<Rightarrow>
                (takeWhile is_space s @ takeWhile is_letter (dropWhile is_space s) @ m, r)))"
  by pat_completeness auto
termination
  by (relation "measure length") (auto simp: dropWhile_shorter)

declare more_words.simps [simp del]

text \<open>Group 3.\<close>

definition re_product :: "ustr \<Rightarrow> (ustr \<times> ustr) option" where
  "re_product s =
     (if takeWhile is_letter s = [] then None
      else (case more_words (dropWhile is_letter s) of
              (m, r) \<Rightarrow> Some (takeWhile is_letter s @ m, r)))"

text \<open>S+ and group 3.\<close>

definition re_sep_product :: "ustr \<Rightarrow> (ustr \<times> ustr) option" where
  "re_sep_product s = first_some (\<lambda>(w, r). re_product r) (greedy1 is_space s)"

text \<open>The optional group 2, then S+ and group 3; a group that takes no part is empty.\<close>

definition re_unit_product :: "ustr \<Rightarrow> (ustr \<times> ustr \<times> ustr) option" where
  "re_unit_product s =
     first_some (\<lambda>(u, r). map_option (\<lambda>(p, e). (u, p, e)) (re_sep_product r))
       (greedy1 is_letter s @ [([], s)])"

text \<open>Everything after group 1.\<close>

definition re_tail :: "ustr \<Rightarrow> (ustr \<times> ustr \<times> ustr) option" where
  "re_tail s = first_some (\<lambda>(w, r). re_unit_product r) (greedy is_space s)"

text \<open>The optional fraction of group 1 and group 1 itself, as lists of alternatives.\<close>

definition re_fraction :: "ustr \<Rightarrow> (ustr \<times> ustr) list" where
  "re_fraction s =
     (if s \<noteq> [] \<and> hd s = 46
      then map (\<lambda>(d, r). (46 # d, r)) (greedy1 is_digit (tl s)) @ [([], s)]
      else [([], s)])"

definition re_quantity :: "ustr \<Rightarrow> (ustr \<times> ustr) list" where
  "re_quantity s =
     concat (map (\<lambda>(i, r). map (\<lambda>(f, r'). (i @ f, r')) (re_fraction r)) (greedy1 is_digit s))"

text \<open>A match of the whole pattern at the start of \<open>s\<close>: the three groups and the rest.\<close>

definition re_match :: "ustr \<Rightarrow> ((ustr \<times> ustr \<times> ustr) \<times> ustr) option" where
  "re_match s =
     first_some (\<lambda>(q, r). map_option (\<lambda>(u, p, e). ((q, u, p), e)) (re_tail r))
       (re_quantity s)"


subsection \<open>What a match looks like\<close>

text \<open>
  Every alternative splits the text into the matched part and the rest; these facts give
  the shape of a whole match and show that the scan below terminates.
\<close>

lemma greedy_split:
  "(m, r) \<in> set (greedy P s) \<Longrightarrow> s = m @ r \<and> list_all P m"
  by (induction s arbitrary: m) (auto split: if_splits)

lemma greedy1_split:
  "(m, r) \<in> set (greedy1 P s) \<Longrightarrow> s = m @ r \<and> m \<noteq> [] \<and> list_all P m"
  using greedy_split [of m r P s] by (auto simp: greedy1_def)

lemma first_some_Some:
  "first_some f xs = Some y \<Longrightarrow> \<exists>x \<in> set xs. f x = Some y"
  by (induction xs) (auto split: option.splits)

lemma more_words_split: "more_words s = (m, r) \<Longrightarrow> s = m @ r"
proof (induction s arbitrary: m r rule: more_words.induct)
  case (1 s)
  show ?case
  proof (cases "takeWhile is_space s = [] \<or> takeWhile is_letter (dropWhile is_space s) = []")
    case True
    with "1.prems" show ?thesis by (simp add: more_words.simps [of s])
  next
    case False
    obtain m' r' where rec: "more_words (dropWhile is_letter (dropWhile is_space s)) = (m', r')"
      by (cases "more_words (dropWhile is_letter (dropWhile is_space s))")
    from "1.IH" [OF False rec]
    have "dropWhile is_letter (dropWhile is_space s) = m' @ r'" .
    moreover from "1.prems" False rec
    have "m = takeWhile is_space s @ takeWhile is_letter (dropWhile is_space s) @ m'" "r = r'"
      by (simp_all add: more_words.simps [of s])
    ultimately show ?thesis
      by (metis append.assoc takeWhile_dropWhile_id)
  qed
qed

lemma more_words_last: "more_words s = (m, r) \<Longrightarrow> m = [] \<or> is_letter (last m)"
proof (induction s arbitrary: m r rule: more_words.induct)
  case (1 s)
  show ?case
  proof (cases "takeWhile is_space s = [] \<or> takeWhile is_letter (dropWhile is_space s) = []")
    case True
    with "1.prems" show ?thesis by (simp add: more_words.simps [of s])
  next
    case False
    let ?l = "takeWhile is_letter (dropWhile is_space s)"
    obtain m' r' where rec: "more_words (dropWhile is_letter (dropWhile is_space s)) = (m', r')"
      by (cases "more_words (dropWhile is_letter (dropWhile is_space s))")
    from "1.IH" [OF False rec] have ih: "m' = [] \<or> is_letter (last m')" .
    from "1.prems" False rec have m: "m = takeWhile is_space s @ ?l @ m'"
      by (simp add: more_words.simps [of s])
    from False have "last ?l \<in> set ?l" by simp
    then have "is_letter (last ?l)" by (rule set_takeWhileD [THEN conjunct2])
    with ih m False show ?thesis by (auto simp: last_append)
  qed
qed

lemma re_product_split:
  assumes "re_product s = Some (p, r)"
  shows "s = p @ r \<and> p \<noteq> [] \<and> is_letter (last p)"
proof -
  let ?l = "takeWhile is_letter s"
  obtain m r' where mw: "more_words (dropWhile is_letter s) = (m, r')"
    by (cases "more_words (dropWhile is_letter s)")
  from assms mw have l: "?l \<noteq> []" and p: "p = ?l @ m" and r: "r = r'"
    unfolding re_product_def by (auto split: if_splits)
  from more_words_split [OF mw] have "s = ?l @ m @ r'"
    by (metis takeWhile_dropWhile_id)
  moreover from l have "last ?l \<in> set ?l" by simp
  then have "is_letter (last ?l)" by (rule set_takeWhileD [THEN conjunct2])
  moreover note more_words_last [OF mw]
  ultimately show ?thesis using l p r by (auto simp: last_append)
qed

lemma re_sep_product_split:
  assumes "re_sep_product s = Some (p, r)"
  shows "\<exists>w. s = w @ p @ r \<and> w \<noteq> [] \<and> list_all is_space w \<and> p \<noteq> [] \<and> is_letter (last p)"
proof -
  from assms obtain w r0 where mem: "(w, r0) \<in> set (greedy1 is_space s)"
    and prod: "re_product r0 = Some (p, r)"
    unfolding re_sep_product_def by (auto dest!: first_some_Some)
  from greedy1_split [OF mem] re_product_split [OF prod] show ?thesis by auto
qed

lemma re_unit_product_split:
  assumes "re_unit_product s = Some (u, p, e)"
  shows "\<exists>w. s = u @ w @ p @ e \<and> w \<noteq> [] \<and> list_all is_space w \<and> p \<noteq> [] \<and> is_letter (last p) \<and> list_all is_letter u"
proof -
  from assms obtain u0 r0 where mem: "(u0, r0) \<in> set (greedy1 is_letter s @ [([], s)])"
    and rest: "map_option (\<lambda>(p, e). (u0, p, e)) (re_sep_product r0) = Some (u, p, e)"
    unfolding re_unit_product_def by (auto dest!: first_some_Some)
  from rest have u: "u0 = u" and sp: "re_sep_product r0 = Some (p, e)" by auto
  from mem have "s = u0 @ r0 \<and> list_all is_letter u0"
    using greedy1_split [of u0 r0 is_letter s] by auto
  with u re_sep_product_split [OF sp] show ?thesis by auto
qed

lemma re_tail_split:
  assumes "re_tail s = Some (u, p, e)"
  shows "\<exists>w1 w2. s = w1 @ u @ w2 @ p @ e \<and> list_all is_space w1 \<and> w2 \<noteq> [] \<and>
           list_all is_space w2 \<and> p \<noteq> [] \<and> is_letter (last p) \<and> list_all is_letter u"
proof -
  from assms obtain w r0 where mem: "(w, r0) \<in> set (greedy is_space s)"
    and rest: "re_unit_product r0 = Some (u, p, e)"
    unfolding re_tail_def by (auto dest!: first_some_Some)
  from greedy_split [OF mem] re_unit_product_split [OF rest] show ?thesis by auto
qed

text \<open>The shape of group 1: digits, or digits, a point and digits.\<close>

definition quantity_shape :: "ustr \<Rightarrow> bool" where
  "quantity_shape q \<longleftrightarrow>
     (\<exists>i. i \<noteq> [] \<and> list_all is_digit i \<and>
        (q = i \<or> (\<exists>f. f \<noteq> [] \<and> list_all is_digit f \<and> q = i @ 46 # f)))"

lemma re_quantity_split:
  assumes "(q, r) \<in> set (re_quantity s)"
  shows "s = q @ r \<and> quantity_shape q"
proof -
  from assms obtain i r0 f where i: "(i, r0) \<in> set (greedy1 is_digit s)"
    and f: "(f, r) \<in> set (re_fraction r0)" and q: "q = i @ f"
    unfolding re_quantity_def by auto
  from greedy1_split [OF i] have s: "s = i @ r0" "i \<noteq> []" "list_all is_digit i" by auto
  from f have "r0 = f @ r \<and> (f = [] \<or> (\<exists>d. d \<noteq> [] \<and> list_all is_digit d \<and> f = 46 # d))"
    unfolding re_fraction_def
    by (cases r0) (auto split: if_splits dest!: greedy1_split)
  with s q show ?thesis unfolding quantity_shape_def by auto
qed

lemma re_match_split:
  assumes "re_match s = Some ((q, u, p), e)"
  shows "\<exists>w1 w2. s = q @ w1 @ u @ w2 @ p @ e \<and> quantity_shape q \<and> list_all is_space w1 \<and>
           w2 \<noteq> [] \<and> list_all is_space w2 \<and> p \<noteq> [] \<and> is_letter (last p) \<and> list_all is_letter u"
proof -
  from assms obtain q0 r0 where mem: "(q0, r0) \<in> set (re_quantity s)"
    and rest: "map_option (\<lambda>(u, p, e). ((q0, u, p), e)) (re_tail r0) = Some ((q, u, p), e)"
    unfolding re_match_def by (auto dest!: first_some_Some)
  from rest have q: "q0 = q" and t: "re_tail r0 = Some (u, p, e)" by auto
  from re_quantity_split [OF mem] q re_tail_split [OF t] show ?thesis by auto
qed

lemma re_match_shorter: "re_match s = Some (g, rest) \<Longrightarrow> length rest < length s"
proof -
  assume a: "re_match s = Some (g, rest)"
  obtain q u p where g: "g = (q, u, p)" by (cases g)
  from re_match_split [OF a [unfolded g]] show ?thesis by auto
qed

subsection \<open>\<open>re.findall\<close>\<close>

text \<open>
  \<open>re.findall\<close> scans from left to right: where the pattern matches it records the
  three groups and goes on after the match, otherwise it moves one code point on. A match
  is never empty.
\<close>

function re_findall :: "ustr \<Rightarrow> (ustr \<times> ustr \<times> ustr) list" where
  "re_findall s =
     (if s = [] then []
      else (case re_match s of
              Some (g, rest) \<Rightarrow> g # re_findall rest
            | None \<Rightarrow> re_findall (tl s)))"
  by pat_completeness auto
termination
  by (relation "measure length") (auto simp: re_match_shorter)

declare re_findall.simps [simp del]

section \<open>\<open>parse_hinglish_order\<close>\<close>

text \<open>
  The item and order dicts have fixed keys, so they are records. The key
  \<open>original_text\<close> of the order is the field \<open>order_original_text\<close>.
\<close>

record parsed_item =
  name :: ustr
  quantity :: pyfloat
  unit :: ustr
  original_text :: ustr

record parsed_order =
  items :: "parsed_item list"
  order_original_text :: ustr
  total_items :: int

definition unit_allowlist :: "ustr list" where
  "unit_allowlist = [of_ascii ''kg'', of_ascii ''litre'', of_ascii ''piece'', of_ascii ''packet'']"

text \<open>
  The body of the loop for one match: \<open>None\<close> is the \<open>continue\<close> after a
  \<open>ValueError\<close>, otherwise the item that is appended. An unmatched group 2 is the
  empty string, which is false in a condition.
\<close>

definition parse_match :: "ustr \<times> ustr \<times> ustr \<Rightarrow> parsed_item option" where
  "parse_match m =
     (case m of (quantity_str, unit_str, product_str) \<Rightarrow>
        (case py_float quantity_str of
           None \<Rightarrow> None
         | Some q \<Rightarrow>
             (let allowed = (unit_str = [] \<or> py_lower unit_str \<in> set unit_allowlist);
                  u = (if allowed
                       then (if unit_str \<noteq> [] then normalize_unit unit_str
                             else of_ascii ''piece'')
                       else of_ascii ''piece'');
                  product_str' = (if allowed then product_str
                                  else unit_str @ of_ascii '' '' @ product_str)
              in Some \<lparr>name = fuzzy_match_product product_str' 70,
                       quantity = q,
                       unit = u,
                       original_text =
                         py_strip (quantity_str @ of_ascii '' '' @ unit_str @ of_ascii '' '' @
                                   product_str')\<rparr>)))"

definition parse_hinglish_order :: "ustr \<Rightarrow> parsed_order" where
  "parse_hinglish_order order_text =
     (let its = List.map_filter parse_match (re_findall order_text)
      in \<lparr>items = its, order_original_text = order_text, total_items = int (length its)\<rparr>)"

section \<open>\<open>generate_reply\<close>\<close>

text \<open>\<open>str\<close> of a non-negative integer, and \<open>sep.join\<close>.\<close>

fun str_of_nat :: "nat \<Rightarrow> ustr" where
  "str_of_nat n = (if n < 10 then [48 + n] else str_of_nat (n div 10) @ [48 + n mod 10])"

declare str_of_nat.simps [simp del]

fun join :: "ustr \<Rightarrow> ustr list \<Rightarrow> ustr" where
  "join sep [] = []"
| "join sep [x] = x"
| "join sep (x # y # ys) = x @ sep @ join sep (y # ys)"

text \<open>
  The formatting of a float and \<open>str.title()\<close> are built-ins that are not modelled;
  \<open>generate_reply\<close> takes them as the parameters \<open>float_str\<close> and \<open>title\<close>. The
  argument is a dict made by \<open>parse_hinglish_order\<close>, which is never empty, so the first
  test of the condition is false and the second decides.
\<close>

definition item_line ::
  "(pyfloat \<Rightarrow> ustr) \<Rightarrow> (ustr \<Rightarrow> ustr) \<Rightarrow> nat \<times> parsed_item \<Rightarrow> ustr" where
  "item_line float_str title p =
     (case p of (idx, item) \<Rightarrow>
        str_of_nat idx @ of_ascii ''. '' @ float_str (quantity item) @ of_ascii '' '' @
        unit item @ of_ascii '' '' @ title (name item))"

definition generate_reply ::
  "(pyfloat \<Rightarrow> ustr) \<Rightarrow> (ustr \<Rightarrow> ustr) \<Rightarrow> parsed_order \<Rightarrow> ustr \<Rightarrow> ustr" where
  "generate_reply float_str title parsed_order customer_name =
     (if items parsed_order = []
      then of_ascii ''Sorry '' @ customer_name @
           of_ascii '', I couldn't understand your order. Please try again.''
      else join [10]
             ([of_ascii ''Thank you '' @ customer_name @ of_ascii ''! Your order:''] @
              map (item_line float_str title)
                (zip [1 ..< Suc (length (items parsed_order))] (items parsed_order)) @
              [[10] @ of_ascii ''Your order is confirmed! '' @ [0x2705],
               of_ascii ''We'll prepare it right away.'']))"

section \<open>Properties of the parser\<close>

lemma re_findall_Nil: "re_findall [] = []"
  by (simp add: re_findall.simps)

text \<open>
  Claim C8. For every input string \<open>parse_hinglish_order\<close> returns an order: the scan
  terminates, and the only exception that its body can meet, the \<open>ValueError\<close> of
  \<open>float\<close>, is caught and skips one candidate. In the order that it returns,
  \<open>total_items\<close> is the length of \<open>items\<close> and the input is kept as it was; an order
  without items is a regular result, the one of the empty message for instance.
\<close>

theorem parse_order_well_formed:
  "total_items (parse_hinglish_order s) = int (length (items (parse_hinglish_order s))) \<and>
   order_original_text (parse_hinglish_order s) = s \<and>
   parse_hinglish_order [] = \<lparr>items = [], order_original_text = [], total_items = 0\<rparr>"
  by (simp add: parse_hinglish_order_def Let_def re_findall_Nil List.map_filter_simps)

section \<open>The parser at concrete messages\<close>

text \<open>
  The definitions are run by rewriting; \<open>re_eval\<close> and \<open>parse_eval\<close> collect the
  equations that this needs.
\<close>

lemmas re_eval = re_findall.simps more_words.simps re_match_def re_quantity_def re_fraction_def
  re_tail_def re_unit_product_def re_sep_product_def re_product_def greedy1_def is_digit_def
  decimal_value_def decimal_starts_def is_space_def is_letter_def of_ascii_def cp_def

lemmas parse_eval = parse_hinglish_order_def parse_match_def List.map_filter_simps py_float_def
  parse_decimal_def strip_ascii_def to_ascii_def ascii_space_def ascii_digit_def digits_value_def
  py_lower_def lower_cp_def py_strip_def unit_allowlist_def normalize_unit_def UNIT_MAPPINGS_def
  fuzzy_match_product_def PRODUCT_ALIASES_def known_products_def ratio_def lcs_def extractOne_def

lemma parse_biscuit_sugar:
  "parse_hinglish_order (of_ascii ''5 packet biscuit and 500 gm sugar'') =
     \<lparr>items =
        [\<lparr>name = of_ascii ''biscuit'', quantity = Finite 5, unit = of_ascii ''packet'',
          original_text = of_ascii ''5 packet biscuit and''\<rparr>,
         \<lparr>name = of_ascii ''sugar'', quantity = Finite 500, unit = of_ascii ''piece'',
          original_text = of_ascii ''500 gm gm sugar''\<rparr>],
      order_original_text = of_ascii ''5 packet biscuit and 500 gm sugar'',
      total_items = 2\<rparr>"
  by (simp add: re_eval parse_eval)

lemma parse_atta_milk:
  "parse_hinglish_order (of_ascii ''2 kg atta aur 1 litre milk chahiye'') =
     \<lparr>items =
        [\<lparr>name = of_ascii ''atta aur'', quantity = Finite 2, unit = of_ascii ''kg'',
          original_text = of_ascii ''2 kg atta aur''\<rparr>,
         \<lparr>name = of_ascii ''milk chahiye'', quantity = Finite 1, unit = of_ascii ''litre'',
          original_text = of_ascii ''1 litre milk chahiye''\<rparr>],
      order_original_text = of_ascii ''2 kg atta aur 1 litre milk chahiye'',
      total_items = 2\<rparr>"
  by (simp add: re_eval parse_eval)



text \<open>
  Claim C1. The message "5 packet biscuit and 500 gm sugar" gives exactly two items with
  the quantities 5 and 500, and the first has the unit packet. The second does not get
  the unit of its text: "gm" is a key of \<open>UNIT_MAPPINGS\<close> and \<open>normalize_unit\<close> maps it
  to itself, but it is not among the four words that \<open>parse_hinglish_order\<close> accepts as a
  unit, so the item is a piece of the product "gm sugar" and its text repeats the unit.
\<close>

theorem biscuit_sugar_units:
  "map quantity (items (parse_hinglish_order (of_ascii ''5 packet biscuit and 500 gm sugar'')))
     = [Finite 5, Finite 500] \<and>
   map unit (items (parse_hinglish_order (of_ascii ''5 packet biscuit and 500 gm sugar'')))
     = [of_ascii ''packet'', of_ascii ''piece''] \<and>
   map original_text
     (items (parse_hinglish_order (of_ascii ''5 packet biscuit and 500 gm sugar'')))
     = [of_ascii ''5 packet biscuit and'', of_ascii ''500 gm gm sugar''] \<and>
   normalize_unit (of_ascii ''gm'') = of_ascii ''gm''"
  by (simp add: parse_biscuit_sugar)
     (simp add: normalize_unit_def UNIT_MAPPINGS_def py_strip_def py_lower_def lower_cp_def
        is_space_def of_ascii_def cp_def)

text \<open>
  Claim C2, as stated: the message "2 kg atta aur 1 litre milk chahiye" gives the items
  named "atta" and "milk". It does not: the names are not these two.
\<close>

theorem atta_milk_names_counterexample:
  "map name (items (parse_hinglish_order (of_ascii ''2 kg atta aur 1 litre milk chahiye'')))
     \<noteq> [of_ascii ''atta'', of_ascii ''milk'']"
  by (simp add: parse_atta_milk) (simp add: of_ascii_def cp_def)

text \<open>
  Claim C2, amended. The message gives exactly two items, in order: 2 of the unit "kg"
  and 1 of the unit "litre". The filler words are not items of their own, but they stay
  in the product phrases: group 3 of the pattern runs on to the next number, neither
  "atta aur" nor "milk chahiye" scores 70 against an alias or a catalog name, and so both
  names are the phrases themselves.
\<close>

theorem atta_milk_order:
  "items (parse_hinglish_order (of_ascii ''2 kg atta aur 1 litre milk chahiye'')) =
     [\<lparr>name = of_ascii ''atta aur'', quantity = Finite 2, unit = of_ascii ''kg'',
       original_text = of_ascii ''2 kg atta aur''\<rparr>,
      \<lparr>name = of_ascii ''milk chahiye'', quantity = Finite 1, unit = of_ascii ''litre'',
       original_text = of_ascii ''1 litre milk chahiye''\<rparr>]"
  by (simp add: parse_atta_milk)

section \<open>Properties of the product matcher\<close>

text \<open>The aliases of the table in the order in which the two loops visit them.\<close>

definition alias_pairs :: "(ustr \<times> ustr list) list \<Rightarrow> (ustr \<times> ustr) list" where
  "alias_pairs table = concat (map (\<lambda>(standard_name, aliases). map (Pair standard_name) aliases) table)"

lemmas match_eval = fuzzy_match_product_def py_lower_def py_strip_def lower_cp_def is_space_def
  of_ascii_def cp_def PRODUCT_ALIASES_def known_products_def ratio_def lcs_def extractOne_def
  alias_pairs_def


lemma alias_scan_find:
  "alias_scan p t table =
     map_option fst (find (\<lambda>(c, a). ratio p a \<ge> of_int t) (alias_pairs table))"
proof (induction table)
  case Nil
  show ?case by (simp add: alias_pairs_def)
next
  case (Cons e table)
  obtain c as where e: "e = (c, as)" by (cases e)
  have inner: "find (\<lambda>(c, a). ratio p a \<ge> of_int t) (map (Pair c) as @ rest) =
      (if list_ex (\<lambda>a. ratio p a \<ge> of_int t) as
       then Some (c, the (find (\<lambda>a. ratio p a \<ge> of_int t) as))
       else find (\<lambda>(c, a). ratio p a \<ge> of_int t) rest)" for rest
    by (induction as) auto
  show ?case
    using Cons.IH inner [of "alias_pairs table"] by (simp add: e alias_pairs_def)
qed

lemma find_first:
  assumes "i < length xs" "P (xs ! i)" "\<forall>x \<in> set (take i xs). \<not> P x"
  shows "find P xs = Some (xs ! i)"
  using assms
proof (induction xs arbitrary: i)
  case Nil
  then show ?case by simp
next
  case (Cons x xs)
  then show ?case by (cases i) auto
qed





lemma alias_scan_first:
  assumes "i < length (alias_pairs table)"
    and "ratio p (snd (alias_pairs table ! i)) \<ge> of_int t"
    and "\<forall>(c, a) \<in> set (take i (alias_pairs table)). ratio p a < of_int t"
  shows "alias_scan p t table = Some (fst (alias_pairs table ! i))"
proof -
  have "find (\<lambda>(c, a). ratio p a \<ge> of_int t) (alias_pairs table) = Some (alias_pairs table ! i)"
    using assms by (intro find_first) (auto simp: case_prod_unfold not_le)
  then show ?thesis by (simp add: alias_scan_find)
qed



text \<open>
  Claim C6. In the alias phase the aliases are visited in the order of the table, entry
  by entry and within an entry in the order of its list, and the first alias whose ratio
  with the lowercased, trimmed input reaches the threshold decides: the result is the
  standard name of its entry, whatever the later aliases score.
\<close>

theorem alias_phase_first_match:
  assumes "i < length (alias_pairs PRODUCT_ALIASES)"
    and "ratio (py_strip (py_lower product_text)) (snd (alias_pairs PRODUCT_ALIASES ! i))
           \<ge> of_int threshold"
    and "\<forall>(c, a) \<in> set (take i (alias_pairs PRODUCT_ALIASES)).
           ratio (py_strip (py_lower product_text)) a < of_int threshold"
  shows "fuzzy_match_product product_text threshold = fst (alias_pairs PRODUCT_ALIASES ! i)"
  using alias_scan_first [OF assms] by (simp add: fuzzy_match_product_def)

text \<open>
  At the threshold 70 the input "chani" scores 72.7 against "cheeni", the eighth alias
  of the table, and less than 70 against the seven before it, so the result is "sugar",
  although the later alias "chai" of "tea" scores 88.9.
\<close>

theorem alias_phase_first_match_witness:
  "7 < length (alias_pairs PRODUCT_ALIASES) \<and>
   alias_pairs PRODUCT_ALIASES ! 7 = (of_ascii ''sugar'', of_ascii ''cheeni'') \<and>
   ratio (py_strip (py_lower (of_ascii ''chani''))) (of_ascii ''cheeni'') \<ge> of_int 70 \<and>
   ratio (py_strip (py_lower (of_ascii ''chani''))) (of_ascii ''chai'') >
     ratio (py_strip (py_lower (of_ascii ''chani''))) (of_ascii ''cheeni'') \<and>
   fuzzy_match_product (of_ascii ''chani'') 70 = of_ascii ''sugar''"
proof -
  have len: "7 < length (alias_pairs PRODUCT_ALIASES)"
    by (simp add: alias_pairs_def PRODUCT_ALIASES_def)
  have at: "alias_pairs PRODUCT_ALIASES ! 7 = (of_ascii ''sugar'', of_ascii ''cheeni'')"
    by (simp add: alias_pairs_def PRODUCT_ALIASES_def)
  have hit: "ratio (py_strip (py_lower (of_ascii ''chani'')))
               (snd (alias_pairs PRODUCT_ALIASES ! 7)) \<ge> of_int 70"
    by (simp add: match_eval)
  have before: "\<forall>(c, a) \<in> set (take 7 (alias_pairs PRODUCT_ALIASES)).
                  ratio (py_strip (py_lower (of_ascii ''chani''))) a < of_int 70"
    by (simp add: match_eval)
  have later: "ratio (py_strip (py_lower (of_ascii ''chani''))) (of_ascii ''chai'') >
     ratio (py_strip (py_lower (of_ascii ''chani''))) (of_ascii ''cheeni'')"
    by (simp add: match_eval)
  from alias_phase_first_match [OF len hit before] hit later len at show ?thesis by simp
qed






section \<open>The reply to an order without items\<close>

text \<open>
  Claim C9. The empty message gives the order without items and with \<open>total_items\<close> 0,
  and for every order without items the reply is the fixed sentence "Sorry NAME, I
  couldn't understand your order. Please try again." with the customer's name, not a
  list of items.
\<close>

theorem empty_order_reply:
  "parse_hinglish_order [] = \<lparr>items = [], order_original_text = [], total_items = 0\<rparr> \<and>
   (items order = [] \<longrightarrow>
      generate_reply float_str title order customer_name =
        of_ascii ''Sorry '' @ customer_name @
        of_ascii '', I couldn't understand your order. Please try again.'')"
  by (simp add: parse_hinglish_order_def re_findall_Nil List.map_filter_simps generate_reply_def)

theorem empty_order_reply_witness:
  "items (parse_hinglish_order []) = [] \<and>
   generate_reply (\<lambda>q. []) (\<lambda>n. n) (parse_hinglish_order []) (of_ascii ''Rajesh'') =
     of_ascii ''Sorry Rajesh, I couldn't understand your order. Please try again.''"
proof -
  have e: "items (parse_hinglish_order []) = []"
    using empty_order_reply [THEN conjunct1] by simp
  from empty_order_reply [of "parse_hinglish_order []" "\<lambda>q. []" "\<lambda>n. n" "of_ascii ''Rajesh''",
      THEN conjunct2] e
  show ?thesis by (simp add: of_ascii_def)
qed

section \<open>The quantity of a match\<close>













section \<open>Items and matches\<close>














section \<open>The text of an item\<close>








end
